theory Spec2Isabelle
  imports Main "HOL-Library.Word"
begin

section \<open>Constant blocks\<close>

text \<open>
  The source never writes the number of an enumeration constant. The block of an
  enumeration is a Go \<^verbatim>\<open>const ( ... )\<close> declaration whose first line is \<^verbatim>\<open>= iota\<close>, so
  the value of a constant is its position in the block. A block is modelled as the list of its
  identifiers in declaration order, and \<open>iota\<close> counts the lines before an identifier.
\<close>

fun iota :: "string list \<Rightarrow> string \<Rightarrow> nat" where
  "iota [] n = 0"
| "iota (x # xs) n = (if x = n then 0 else Suc (iota xs n))"

section \<open>PoolStatus\<close>

text \<open>
  \<^verbatim>\<open>type PoolStatus int\<close>. Go's \<^verbatim>\<open>int\<close> is a signed integer of 32 or 64 bits, depending
  on the platform. The renderer only compares its argument with constants, so the type is
  modelled by the mathematical integers, which hold every value of either width.
\<close>

type_synonym PoolStatus = int

definition PoolStatus_consts :: "string list" where
  "PoolStatus_consts =
    [''PoolStatusCorruptCache'', ''PoolStatusMissingDevR'', ''PoolStatusMissingDevNr'',
     ''PoolStatusCorruptLabelR'', ''PoolStatusCorruptLabelNr'', ''PoolStatusBadGUIDSum'',
     ''PoolStatusCorruptPool'', ''PoolStatusCorruptData'', ''PoolStatusFailingDev'',
     ''PoolStatusVersionNewer'', ''PoolStatusHostidMismatch'', ''PoolStatusIoFailureWait'',
     ''PoolStatusIoFailureContinue'', ''PoolStatusBadLog'', ''PoolStatusErrata'',
     ''PoolStatusUnsupFeatRead'', ''PoolStatusUnsupFeatWrite'', ''PoolStatusFaultedDevR'',
     ''PoolStatusFaultedDevNr'', ''PoolStatusVersionOlder'', ''PoolStatusFeatDisabled'',
     ''PoolStatusResilvering'', ''PoolStatusOfflineDev'', ''PoolStatusRemovedDev'',
     ''PoolStatusOk'']"

definition PoolStatusCorruptCache :: PoolStatus where
  "PoolStatusCorruptCache = int (iota PoolStatus_consts ''PoolStatusCorruptCache'')"

definition PoolStatusMissingDevR :: PoolStatus where
  "PoolStatusMissingDevR = int (iota PoolStatus_consts ''PoolStatusMissingDevR'')"

definition PoolStatusMissingDevNr :: PoolStatus where
  "PoolStatusMissingDevNr = int (iota PoolStatus_consts ''PoolStatusMissingDevNr'')"

definition PoolStatusCorruptLabelR :: PoolStatus where
  "PoolStatusCorruptLabelR = int (iota PoolStatus_consts ''PoolStatusCorruptLabelR'')"

definition PoolStatusCorruptLabelNr :: PoolStatus where
  "PoolStatusCorruptLabelNr = int (iota PoolStatus_consts ''PoolStatusCorruptLabelNr'')"

definition PoolStatusBadGUIDSum :: PoolStatus where
  "PoolStatusBadGUIDSum = int (iota PoolStatus_consts ''PoolStatusBadGUIDSum'')"

definition PoolStatusCorruptPool :: PoolStatus where
  "PoolStatusCorruptPool = int (iota PoolStatus_consts ''PoolStatusCorruptPool'')"

definition PoolStatusCorruptData :: PoolStatus where
  "PoolStatusCorruptData = int (iota PoolStatus_consts ''PoolStatusCorruptData'')"

definition PoolStatusFailingDev :: PoolStatus where
  "PoolStatusFailingDev = int (iota PoolStatus_consts ''PoolStatusFailingDev'')"

definition PoolStatusVersionNewer :: PoolStatus where
  "PoolStatusVersionNewer = int (iota PoolStatus_consts ''PoolStatusVersionNewer'')"

definition PoolStatusHostidMismatch :: PoolStatus where
  "PoolStatusHostidMismatch = int (iota PoolStatus_consts ''PoolStatusHostidMismatch'')"

definition PoolStatusIoFailureWait :: PoolStatus where
  "PoolStatusIoFailureWait = int (iota PoolStatus_consts ''PoolStatusIoFailureWait'')"

definition PoolStatusIoFailureContinue :: PoolStatus where
  "PoolStatusIoFailureContinue = int (iota PoolStatus_consts ''PoolStatusIoFailureContinue'')"

definition PoolStatusBadLog :: PoolStatus where
  "PoolStatusBadLog = int (iota PoolStatus_consts ''PoolStatusBadLog'')"

definition PoolStatusErrata :: PoolStatus where
  "PoolStatusErrata = int (iota PoolStatus_consts ''PoolStatusErrata'')"

definition PoolStatusUnsupFeatRead :: PoolStatus where
  "PoolStatusUnsupFeatRead = int (iota PoolStatus_consts ''PoolStatusUnsupFeatRead'')"

definition PoolStatusUnsupFeatWrite :: PoolStatus where
  "PoolStatusUnsupFeatWrite = int (iota PoolStatus_consts ''PoolStatusUnsupFeatWrite'')"

definition PoolStatusFaultedDevR :: PoolStatus where
  "PoolStatusFaultedDevR = int (iota PoolStatus_consts ''PoolStatusFaultedDevR'')"

definition PoolStatusFaultedDevNr :: PoolStatus where
  "PoolStatusFaultedDevNr = int (iota PoolStatus_consts ''PoolStatusFaultedDevNr'')"

definition PoolStatusVersionOlder :: PoolStatus where
  "PoolStatusVersionOlder = int (iota PoolStatus_consts ''PoolStatusVersionOlder'')"

definition PoolStatusFeatDisabled :: PoolStatus where
  "PoolStatusFeatDisabled = int (iota PoolStatus_consts ''PoolStatusFeatDisabled'')"

definition PoolStatusResilvering :: PoolStatus where
  "PoolStatusResilvering = int (iota PoolStatus_consts ''PoolStatusResilvering'')"

definition PoolStatusOfflineDev :: PoolStatus where
  "PoolStatusOfflineDev = int (iota PoolStatus_consts ''PoolStatusOfflineDev'')"

definition PoolStatusRemovedDev :: PoolStatus where
  "PoolStatusRemovedDev = int (iota PoolStatus_consts ''PoolStatusRemovedDev'')"

definition PoolStatusOk :: PoolStatus where
  "PoolStatusOk = int (iota PoolStatus_consts ''PoolStatusOk'')"

text \<open>The declared values, in declaration order.\<close>

definition PoolStatus_defined :: "PoolStatus list" where
  "PoolStatus_defined =
    [PoolStatusCorruptCache, PoolStatusMissingDevR, PoolStatusMissingDevNr,
     PoolStatusCorruptLabelR, PoolStatusCorruptLabelNr, PoolStatusBadGUIDSum,
     PoolStatusCorruptPool, PoolStatusCorruptData, PoolStatusFailingDev,
     PoolStatusVersionNewer, PoolStatusHostidMismatch, PoolStatusIoFailureWait,
     PoolStatusIoFailureContinue, PoolStatusBadLog, PoolStatusErrata,
     PoolStatusUnsupFeatRead, PoolStatusUnsupFeatWrite, PoolStatusFaultedDevR,
     PoolStatusFaultedDevNr, PoolStatusVersionOlder, PoolStatusFeatDisabled,
     PoolStatusResilvering, PoolStatusOfflineDev, PoolStatusRemovedDev, PoolStatusOk]"

text \<open>
  \<^verbatim>\<open>func (s PoolStatus) String() string\<close>. A Go \<^verbatim>\<open>switch\<close> tries its cases from top to
  bottom and takes the first that matches, \<^verbatim>\<open>default\<close> when none does. The source
  spells "failmodde" in the description of \<open>PoolStatusIoFailureContinue\<close>; an apostrophe
  is written \<open>CHR 0x27\<close>.
\<close>

definition PoolStatus_String :: "PoolStatus \<Rightarrow> string" where
  "PoolStatus_String s =
    (if s = PoolStatusCorruptCache then ''corrupt cache''
     else if s = PoolStatusMissingDevR then ''missing device; replicas available''
     else if s = PoolStatusMissingDevNr then ''missing device; no replicas available''
     else if s = PoolStatusCorruptLabelR then ''bad device label; replicas available''
     else if s = PoolStatusCorruptLabelNr then ''bad device label; no replicas available''
     else if s = PoolStatusBadGUIDSum then ''bad device GUID checksum''
     else if s = PoolStatusCorruptPool then ''corrupt pool metadata''
     else if s = PoolStatusCorruptData then ''corrupt user data''
     else if s = PoolStatusFailingDev then ''device(s) failing''
     else if s = PoolStatusVersionNewer then ''on-disk version too new; unsupported''
     else if s = PoolStatusHostidMismatch then
       ''host ID mismatch; last accessed by another system''
     else if s = PoolStatusIoFailureWait then
       (''failed I/O; failmode is '' @ [CHR 0x27] @ ''wait'' @ [CHR 0x27])
     else if s = PoolStatusIoFailureContinue then
       (''failed I/O; failmodde is '' @ [CHR 0x27] @ ''continue'' @ [CHR 0x27])
     else if s = PoolStatusBadLog then ''cannot read log chain(s)''
     else if s = PoolStatusErrata then ''informational errata available''
     else if s = PoolStatusUnsupFeatRead then
       ''pool is using unsupported features that are required for read access''
     else if s = PoolStatusUnsupFeatWrite then
       ''pool is using unsupported features that are required for write access''
     else if s = PoolStatusFaultedDevR then ''device faulted; replicas available''
     else if s = PoolStatusFaultedDevNr then ''device faulted; no replicas available''
     else if s = PoolStatusVersionOlder then ''on-disk version is old and can be upgraded''
     else if s = PoolStatusFeatDisabled then ''supported features are disabled''
     else if s = PoolStatusResilvering then ''resilvering (scrubbing) in progress''
     else if s = PoolStatusOfflineDev then ''device(s) offline''
     else if s = PoolStatusRemovedDev then ''device(s) removed''
     else if s = PoolStatusOk then ''healthy''
     else ''UNKNOWN'')"

section \<open>PoolState\<close>

text \<open>\<^verbatim>\<open>type PoolState uint64\<close>: an unsigned 64-bit integer.\<close>

type_synonym PoolState = "64 word"

definition PoolState_consts :: "string list" where
  "PoolState_consts =
    [''PoolStateActive'', ''PoolStateExported'', ''PoolStateDestroyed'',
     ''PoolStateSpare'', ''PoolStateL2cache'', ''PoolStateUninitialized'',
     ''PoolStateUnavail'', ''PoolStatePotentiallyActive'']"

definition PoolStateActive :: PoolState where
  "PoolStateActive = of_nat (iota PoolState_consts ''PoolStateActive'')"

definition PoolStateExported :: PoolState where
  "PoolStateExported = of_nat (iota PoolState_consts ''PoolStateExported'')"

definition PoolStateDestroyed :: PoolState where
  "PoolStateDestroyed = of_nat (iota PoolState_consts ''PoolStateDestroyed'')"

definition PoolStateSpare :: PoolState where
  "PoolStateSpare = of_nat (iota PoolState_consts ''PoolStateSpare'')"

definition PoolStateL2cache :: PoolState where
  "PoolStateL2cache = of_nat (iota PoolState_consts ''PoolStateL2cache'')"

definition PoolStateUninitialized :: PoolState where
  "PoolStateUninitialized = of_nat (iota PoolState_consts ''PoolStateUninitialized'')"

definition PoolStateUnavail :: PoolState where
  "PoolStateUnavail = of_nat (iota PoolState_consts ''PoolStateUnavail'')"

definition PoolStatePotentiallyActive :: PoolState where
  "PoolStatePotentiallyActive = of_nat (iota PoolState_consts ''PoolStatePotentiallyActive'')"

definition PoolState_defined :: "PoolState list" where
  "PoolState_defined =
    [PoolStateActive, PoolStateExported, PoolStateDestroyed, PoolStateSpare,
     PoolStateL2cache, PoolStateUninitialized, PoolStateUnavail,
     PoolStatePotentiallyActive]"

text \<open>\<^verbatim>\<open>func (s PoolState) String() string\<close>\<close>

definition PoolState_String :: "PoolState \<Rightarrow> string" where
  "PoolState_String s =
    (if s = PoolStateActive then ''active''
     else if s = PoolStateExported then ''exported''
     else if s = PoolStateDestroyed then ''destroyed''
     else if s = PoolStateSpare then ''spare''
     else if s = PoolStateL2cache then ''L2 cache''
     else if s = PoolStateUninitialized then ''uninitialized''
     else if s = PoolStateUnavail then ''unavailable''
     else if s = PoolStatePotentiallyActive then ''potentially active''
     else ''UNKNOWN'')"

section \<open>VDevState\<close>

text \<open>
  \<^verbatim>\<open>type VDevState uint64\<close>. The source orders the states "from least to most healthy"
  and compares them with the \<open><\<close> of unsigned 64-bit integers, which is the order of
  \<open>64 word\<close>.
\<close>

type_synonym VDevState = "64 word"

definition VDevState_consts :: "string list" where
  "VDevState_consts =
    [''VDevStateUnknown'', ''VDevStateClosed'', ''VDevStateOffline'', ''VDevStateRemoved'',
     ''VDevStateCantOpen'', ''VDevStateFaulted'', ''VDevStateDegraded'',
     ''VDevStateHealthy'']"

definition VDevStateUnknown :: VDevState where
  "VDevStateUnknown = of_nat (iota VDevState_consts ''VDevStateUnknown'')"

definition VDevStateClosed :: VDevState where
  "VDevStateClosed = of_nat (iota VDevState_consts ''VDevStateClosed'')"

definition VDevStateOffline :: VDevState where
  "VDevStateOffline = of_nat (iota VDevState_consts ''VDevStateOffline'')"

definition VDevStateRemoved :: VDevState where
  "VDevStateRemoved = of_nat (iota VDevState_consts ''VDevStateRemoved'')"

definition VDevStateCantOpen :: VDevState where
  "VDevStateCantOpen = of_nat (iota VDevState_consts ''VDevStateCantOpen'')"

definition VDevStateFaulted :: VDevState where
  "VDevStateFaulted = of_nat (iota VDevState_consts ''VDevStateFaulted'')"

definition VDevStateDegraded :: VDevState where
  "VDevStateDegraded = of_nat (iota VDevState_consts ''VDevStateDegraded'')"

definition VDevStateHealthy :: VDevState where
  "VDevStateHealthy = of_nat (iota VDevState_consts ''VDevStateHealthy'')"

definition VDevState_defined :: "VDevState list" where
  "VDevState_defined =
    [VDevStateUnknown, VDevStateClosed, VDevStateOffline, VDevStateRemoved,
     VDevStateCantOpen, VDevStateFaulted, VDevStateDegraded, VDevStateHealthy]"

text \<open>\<^verbatim>\<open>func (s VDevState) String() string\<close>\<close>

definition VDevState_String :: "VDevState \<Rightarrow> string" where
  "VDevState_String s =
    (if s = VDevStateUnknown then ''uninitialized (or perhaps unknown?)''
     else if s = VDevStateClosed then ''closed''
     else if s = VDevStateOffline then ''offline''
     else if s = VDevStateRemoved then ''removed''
     else if s = VDevStateCantOpen then ''cannot open''
     else if s = VDevStateFaulted then ''faulted''
     else if s = VDevStateDegraded then ''degraded''
     else if s = VDevStateHealthy then ''online''
     else ''UNKNOWN'')"

text \<open>
  Modelled from the spec: \<open>isUsable\<close>, which the source does not define. The spec gives
  its contract as \<open>isUsable(state) = state > CantOpen\<close>; the source only says, in the
  comment above the constants, that "a vdev that's VDevStateCantOpen or below is considered
  unusable".
\<close>

definition isUsable :: "VDevState \<Rightarrow> bool" where
  "isUsable state = (VDevStateCantOpen < state)"

section \<open>VDevAux\<close>

text \<open>\<^verbatim>\<open>type VDevAux uint64\<close>\<close>

type_synonym VDevAux = "64 word"

definition VDevAux_consts :: "string list" where
  "VDevAux_consts =
    [''VDevAuxNone'', ''VDevAuxOpenFailed'', ''VDevAuxCorruptData'', ''VDevAuxNoReplicas'',
     ''VDevAuxBadGUIDSum'', ''VDevAuxTooSmall'', ''VDevAuxBadLabel'',
     ''VDevAuxVersionNewer'', ''VDevAuxVersionOlder'', ''VDevAuxUnsupFeat'',
     ''VDevAuxSpared'', ''VDevAuxErrExceeded'', ''VDevAuxIOFailure'', ''VDevAuxBadLog'',
     ''VDevAuxExternal'', ''VDevAuxSplitPool'']"

definition VDevAuxNone :: VDevAux where
  "VDevAuxNone = of_nat (iota VDevAux_consts ''VDevAuxNone'')"

definition VDevAuxOpenFailed :: VDevAux where
  "VDevAuxOpenFailed = of_nat (iota VDevAux_consts ''VDevAuxOpenFailed'')"

definition VDevAuxCorruptData :: VDevAux where
  "VDevAuxCorruptData = of_nat (iota VDevAux_consts ''VDevAuxCorruptData'')"

definition VDevAuxNoReplicas :: VDevAux where
  "VDevAuxNoReplicas = of_nat (iota VDevAux_consts ''VDevAuxNoReplicas'')"

definition VDevAuxBadGUIDSum :: VDevAux where
  "VDevAuxBadGUIDSum = of_nat (iota VDevAux_consts ''VDevAuxBadGUIDSum'')"

definition VDevAuxTooSmall :: VDevAux where
  "VDevAuxTooSmall = of_nat (iota VDevAux_consts ''VDevAuxTooSmall'')"

definition VDevAuxBadLabel :: VDevAux where
  "VDevAuxBadLabel = of_nat (iota VDevAux_consts ''VDevAuxBadLabel'')"

definition VDevAuxVersionNewer :: VDevAux where
  "VDevAuxVersionNewer = of_nat (iota VDevAux_consts ''VDevAuxVersionNewer'')"

definition VDevAuxVersionOlder :: VDevAux where
  "VDevAuxVersionOlder = of_nat (iota VDevAux_consts ''VDevAuxVersionOlder'')"

definition VDevAuxUnsupFeat :: VDevAux where
  "VDevAuxUnsupFeat = of_nat (iota VDevAux_consts ''VDevAuxUnsupFeat'')"

definition VDevAuxSpared :: VDevAux where
  "VDevAuxSpared = of_nat (iota VDevAux_consts ''VDevAuxSpared'')"

definition VDevAuxErrExceeded :: VDevAux where
  "VDevAuxErrExceeded = of_nat (iota VDevAux_consts ''VDevAuxErrExceeded'')"

definition VDevAuxIOFailure :: VDevAux where
  "VDevAuxIOFailure = of_nat (iota VDevAux_consts ''VDevAuxIOFailure'')"

definition VDevAuxBadLog :: VDevAux where
  "VDevAuxBadLog = of_nat (iota VDevAux_consts ''VDevAuxBadLog'')"

definition VDevAuxExternal :: VDevAux where
  "VDevAuxExternal = of_nat (iota VDevAux_consts ''VDevAuxExternal'')"

definition VDevAuxSplitPool :: VDevAux where
  "VDevAuxSplitPool = of_nat (iota VDevAux_consts ''VDevAuxSplitPool'')"

text \<open>
  Modelled from the spec: \<open>VDevAux.describe\<close>, the rendering of a reason code as a fixed
  string. The source declares the reason codes and gives \<open>VDevAux\<close> no \<open>String\<close> method;
  it describes each code in the comment of its declaration. The spec fixes one rendering,
  "insufficient number of replicas" for \<open>NoReplicas\<close>, which is that code's comment, so
  the comments are taken as the fixed strings, and the fallback of the other device
  renderer, "UNKNOWN", for a value that is not declared.
\<close>

definition VDevAux_describe :: "VDevAux \<Rightarrow> string" where
  "VDevAux_describe a =
    (if a = VDevAuxNone then ''no error''
     else if a = VDevAuxOpenFailed then ''ldi_open_*() or vn_open() failed''
     else if a = VDevAuxCorruptData then ''bad label or disk contents''
     else if a = VDevAuxNoReplicas then ''insufficient number of replicas''
     else if a = VDevAuxBadGUIDSum then (''vdev guid sum doesn'' @ [CHR 0x27] @ ''t match'')
     else if a = VDevAuxTooSmall then ''vdev size is too small''
     else if a = VDevAuxBadLabel then ''the label is OK but invalid''
     else if a = VDevAuxVersionNewer then ''on-disk version is too new''
     else if a = VDevAuxVersionOlder then ''on-disk version is too old''
     else if a = VDevAuxUnsupFeat then ''unsupported features''
     else if a = VDevAuxSpared then ''hot spare used in another pool''
     else if a = VDevAuxErrExceeded then ''too many errors''
     else if a = VDevAuxIOFailure then ''experienced I/O failure''
     else if a = VDevAuxBadLog then ''cannot read log chain(s)''
     else if a = VDevAuxExternal then ''external diagnosis''
     else if a = VDevAuxSplitPool then ''vdev was split off into another pool''
     else ''UNKNOWN'')"

section \<open>PoolScanFunc and DSLScanState\<close>

text \<open>\<^verbatim>\<open>type PoolScanFunc uint64\<close> and \<^verbatim>\<open>type DSLScanState uint64\<close>\<close>

type_synonym PoolScanFunc = "64 word"

type_synonym DSLScanState = "64 word"

definition PoolScanFunc_consts :: "string list" where
  "PoolScanFunc_consts =
    [''PoolScanFuncNone'', ''PoolScanFuncScrub'', ''PoolScanFuncResilver'']"

definition PoolScanFuncNone :: PoolScanFunc where
  "PoolScanFuncNone = of_nat (iota PoolScanFunc_consts ''PoolScanFuncNone'')"

definition PoolScanFuncScrub :: PoolScanFunc where
  "PoolScanFuncScrub = of_nat (iota PoolScanFunc_consts ''PoolScanFuncScrub'')"

definition PoolScanFuncResilver :: PoolScanFunc where
  "PoolScanFuncResilver = of_nat (iota PoolScanFunc_consts ''PoolScanFuncResilver'')"

definition PoolScanFunc_defined :: "PoolScanFunc list" where
  "PoolScanFunc_defined =
    [PoolScanFuncNone, PoolScanFuncScrub, PoolScanFuncResilver]"

text \<open>\<^verbatim>\<open>func (f PoolScanFunc) String() string\<close>\<close>

definition PoolScanFunc_String :: "PoolScanFunc \<Rightarrow> string" where
  "PoolScanFunc_String f =
    (if f = PoolScanFuncNone then ''none''
     else if f = PoolScanFuncScrub then ''scrub''
     else if f = PoolScanFuncResilver then ''resilver''
     else ''<UNKNOWN-VALUE>'')"

definition DSLScanState_consts :: "string list" where
  "DSLScanState_consts =
    [''DSLScanStateNone'', ''DSLScanStateScanning'', ''DSLScanStateFinished'',
     ''DSLScanStateCanceled'']"

definition DSLScanStateNone :: DSLScanState where
  "DSLScanStateNone = of_nat (iota DSLScanState_consts ''DSLScanStateNone'')"

definition DSLScanStateScanning :: DSLScanState where
  "DSLScanStateScanning = of_nat (iota DSLScanState_consts ''DSLScanStateScanning'')"

definition DSLScanStateFinished :: DSLScanState where
  "DSLScanStateFinished = of_nat (iota DSLScanState_consts ''DSLScanStateFinished'')"

definition DSLScanStateCanceled :: DSLScanState where
  "DSLScanStateCanceled = of_nat (iota DSLScanState_consts ''DSLScanStateCanceled'')"

definition DSLScanState_defined :: "DSLScanState list" where
  "DSLScanState_defined =
    [DSLScanStateNone, DSLScanStateScanning, DSLScanStateFinished, DSLScanStateCanceled]"

text \<open>\<^verbatim>\<open>func (s DSLScanState) String() string\<close>\<close>

definition DSLScanState_String :: "DSLScanState \<Rightarrow> string" where
  "DSLScanState_String s =
    (if s = DSLScanStateNone then ''none''
     else if s = DSLScanStateScanning then ''scanning''
     else if s = DSLScanStateFinished then ''finished''
     else if s = DSLScanStateCanceled then ''canceled''
     else ''<UNKNOWN-VALUE>'')"

section \<open>ZFS errors\<close>

text \<open>
  The error constants are untyped Go constants, which have arbitrary precision: they are
  integers. The block declares \<^verbatim>\<open>ESuccess = 0\<close>, then \<^verbatim>\<open>ENomem = 2000 << iota\<close>, and
  every later line repeats that expression with its own \<open>iota\<close>. \<open>ESuccess\<close> stands on
  the first line of the block, so \<open>iota\<close> is 1 at \<open>ENomem\<close>.
\<close>

definition ErrorCode_consts :: "string list" where
  "ErrorCode_consts =
    [''ESuccess'', ''ENomem'', ''EBadprop'', ''EPropreadonly'', ''EProptype'',
     ''EPropnoninherit'', ''EPropspace'', ''EBadtype'', ''EBusy'', ''EExists'', ''ENoent'',
     ''EBadstream'', ''EDsreadonly'', ''EVoltoobig'', ''EInvalidname'', ''EBadrestore'',
     ''EBadbackup'', ''EBadtarget'', ''ENodevice'', ''EBaddev'', ''ENoreplicas'',
     ''EResilvering'', ''EBadversion'', ''EPoolunavail'', ''EDevoverflow'', ''EBadpath'',
     ''ECrosstarget'', ''EZoned'', ''EMountfailed'', ''EUmountfailed'',
     ''EUnsharenfsfailed'', ''ESharenfsfailed'', ''EPerm'', ''ENospc'', ''EFault'',
     ''EIo'', ''EIntr'', ''EIsspare'', ''EInvalconfig'', ''ERecursive'', ''ENohistory'',
     ''EPoolprops'', ''EPoolNotsup'', ''EPoolInvalarg'', ''ENametoolong'', ''EOpenfailed'',
     ''ENocap'', ''ELabelfailed'', ''EBadwho'', ''EBadperm'', ''EBadpermset'',
     ''ENodelegation'', ''EUnsharesmbfailed'', ''ESharesmbfailed'', ''EBadcache'',
     ''EIsl2CACHE'', ''EVdevnotsup'', ''ENotsup'', ''EActiveSpare'', ''EUnplayedLogs'',
     ''EReftagRele'', ''EReftagHold'', ''ETagtoolong'', ''EPipefailed'',
     ''EThreadcreatefailed'', ''EPostsplitOnline'', ''EScrubbing'', ''ENoScrub'',
     ''EDiff'', ''EDiffdata'', ''EPoolreadonly'', ''EUnknown'']"

definition ErrorCode_value :: "string \<Rightarrow> int" where
  "ErrorCode_value n =
    (if n = ''ESuccess'' then 0 else push_bit (iota ErrorCode_consts n) 2000)"

definition ESuccess :: int where
  "ESuccess = ErrorCode_value ''ESuccess''"

definition ENomem :: int where
  "ENomem = ErrorCode_value ''ENomem''"

definition EBadprop :: int where
  "EBadprop = ErrorCode_value ''EBadprop''"

definition EPropreadonly :: int where
  "EPropreadonly = ErrorCode_value ''EPropreadonly''"

definition ENoreplicas :: int where
  "ENoreplicas = ErrorCode_value ''ENoreplicas''"

definition EResilvering :: int where
  "EResilvering = ErrorCode_value ''EResilvering''"

definition EUnsharesmbfailed :: int where
  "EUnsharesmbfailed = ErrorCode_value ''EUnsharesmbfailed''"

definition ESharesmbfailed :: int where
  "ESharesmbfailed = ErrorCode_value ''ESharesmbfailed''"

definition EBadcache :: int where
  "EBadcache = ErrorCode_value ''EBadcache''"

definition EUnknown :: int where
  "EUnknown = ErrorCode_value ''EUnknown''"

text \<open>The values of all the constants, in declaration order.\<close>

definition ErrorCode_values :: "int list" where
  "ErrorCode_values = map ErrorCode_value ErrorCode_consts"

section \<open>The last error of the engine\<close>

text \<open>
  The package keeps one handle of the C library, \<open>libzfsHandle\<close>, and reads two things
  from it: \<^verbatim>\<open>C.libzfs_errno\<close>, a C \<open>int\<close>, and \<^verbatim>\<open>C.libzfs_error_description\<close>, a C
  string. The handle is modelled by these two observations; the description is the text
  of the C string, the bytes before its terminator, which is what \<^verbatim>\<open>C.GoString\<close> copies.
\<close>

record libzfs_handle =
  libzfs_errno :: "32 word"
  libzfs_error_description :: string

text \<open>
  A Go \<open>error\<close> made by \<^verbatim>\<open>errors.New\<close> holds the text it was given and returns it from
  \<open>Error()\<close>. The \<open>nil\<close> error is \<open>None\<close>.
\<close>

datatype error = errorString string

definition errors_New :: "string \<Rightarrow> error" where
  "errors_New text = errorString text"

fun Error :: "error \<Rightarrow> string" where
  "Error (errorString s) = s"

definition LastError :: "libzfs_handle \<Rightarrow> error option" where
  "LastError h =
    (let errno = libzfs_errno h in
     if errno = 0 then None
     else Some (errors_New (libzfs_error_description h)))"

text \<open>
  Modelled from the spec: \<open>clear_last_error\<close>, a C helper that the package brings
  with its own headers (\<open>zpool.h\<close>, \<open>zfs.h\<close>) and whose code is not part of the source.
  The spec says that it "unconditionally resets the engine's last-error state to empty";
  no recorded error is the error number 0, which is what \<open>LastError\<close> tests.
\<close>

definition clear_last_error :: "libzfs_handle \<Rightarrow> libzfs_handle" where
  "clear_last_error h = h\<lparr>libzfs_errno := 0\<rparr>"

text \<open>
  \<^verbatim>\<open>func ClearLastError() (err error)\<close> reads the last error, clears the handle and
  returns what it read: the result and the handle after the call.
\<close>

definition ClearLastError :: "libzfs_handle \<Rightarrow> error option \<times> libzfs_handle" where
  "ClearLastError h = (let err = LastError h in (err, clear_last_error h))"

section \<open>Values of the constants\<close>

text \<open>Each constant is the number of lines that precede it in its block.\<close>

lemma PoolStatus_values:
  "PoolStatusCorruptCache = 0" "PoolStatusMissingDevR = 1" "PoolStatusMissingDevNr = 2"
  "PoolStatusCorruptLabelR = 3" "PoolStatusCorruptLabelNr = 4" "PoolStatusBadGUIDSum = 5"
  "PoolStatusCorruptPool = 6" "PoolStatusCorruptData = 7" "PoolStatusFailingDev = 8"
  "PoolStatusVersionNewer = 9" "PoolStatusHostidMismatch = 10" "PoolStatusIoFailureWait =
  11" "PoolStatusIoFailureContinue = 12" "PoolStatusBadLog = 13" "PoolStatusErrata = 14"
  "PoolStatusUnsupFeatRead = 15" "PoolStatusUnsupFeatWrite = 16" "PoolStatusFaultedDevR =
  17" "PoolStatusFaultedDevNr = 18" "PoolStatusVersionOlder = 19" "PoolStatusFeatDisabled =
  20" "PoolStatusResilvering = 21" "PoolStatusOfflineDev = 22" "PoolStatusRemovedDev = 23"
  "PoolStatusOk = 24"
  by (simp_all add: PoolStatus_consts_def
      PoolStatusCorruptCache_def PoolStatusMissingDevR_def PoolStatusMissingDevNr_def
      PoolStatusCorruptLabelR_def PoolStatusCorruptLabelNr_def PoolStatusBadGUIDSum_def
      PoolStatusCorruptPool_def PoolStatusCorruptData_def PoolStatusFailingDev_def
      PoolStatusVersionNewer_def PoolStatusHostidMismatch_def PoolStatusIoFailureWait_def
      PoolStatusIoFailureContinue_def PoolStatusBadLog_def PoolStatusErrata_def
      PoolStatusUnsupFeatRead_def PoolStatusUnsupFeatWrite_def PoolStatusFaultedDevR_def
      PoolStatusFaultedDevNr_def PoolStatusVersionOlder_def PoolStatusFeatDisabled_def
      PoolStatusResilvering_def PoolStatusOfflineDev_def PoolStatusRemovedDev_def
      PoolStatusOk_def)

lemma PoolState_values:
  "PoolStateActive = 0" "PoolStateExported = 1" "PoolStateDestroyed = 2" "PoolStateSpare =
  3" "PoolStateL2cache = 4" "PoolStateUninitialized = 5" "PoolStateUnavail = 6"
  "PoolStatePotentiallyActive = 7"
  by (simp_all add: PoolState_consts_def
      PoolStateActive_def PoolStateExported_def PoolStateDestroyed_def PoolStateSpare_def
      PoolStateL2cache_def PoolStateUninitialized_def PoolStateUnavail_def
      PoolStatePotentiallyActive_def)

lemma VDevState_values:
  "VDevStateUnknown = 0" "VDevStateClosed = 1" "VDevStateOffline = 2" "VDevStateRemoved = 3"
  "VDevStateCantOpen = 4" "VDevStateFaulted = 5" "VDevStateDegraded = 6" "VDevStateHealthy =
  7"
  by (simp_all add: VDevState_consts_def
      VDevStateUnknown_def VDevStateClosed_def VDevStateOffline_def VDevStateRemoved_def
      VDevStateCantOpen_def VDevStateFaulted_def VDevStateDegraded_def VDevStateHealthy_def)

lemma VDevAux_values:
  "VDevAuxNone = 0" "VDevAuxOpenFailed = 1" "VDevAuxCorruptData = 2" "VDevAuxNoReplicas = 3"
  "VDevAuxBadGUIDSum = 4" "VDevAuxTooSmall = 5" "VDevAuxBadLabel = 6" "VDevAuxVersionNewer =
  7" "VDevAuxVersionOlder = 8" "VDevAuxUnsupFeat = 9" "VDevAuxSpared = 10"
  "VDevAuxErrExceeded = 11" "VDevAuxIOFailure = 12" "VDevAuxBadLog = 13" "VDevAuxExternal =
  14" "VDevAuxSplitPool = 15"
  by (simp_all add: VDevAux_consts_def
      VDevAuxNone_def VDevAuxOpenFailed_def VDevAuxCorruptData_def VDevAuxNoReplicas_def
      VDevAuxBadGUIDSum_def VDevAuxTooSmall_def VDevAuxBadLabel_def VDevAuxVersionNewer_def
      VDevAuxVersionOlder_def VDevAuxUnsupFeat_def VDevAuxSpared_def VDevAuxErrExceeded_def
      VDevAuxIOFailure_def VDevAuxBadLog_def VDevAuxExternal_def VDevAuxSplitPool_def)

lemma PoolScanFunc_values:
  "PoolScanFuncNone = 0" "PoolScanFuncScrub = 1" "PoolScanFuncResilver = 2"
  by (simp_all add: PoolScanFunc_consts_def
      PoolScanFuncNone_def PoolScanFuncScrub_def PoolScanFuncResilver_def)

lemma DSLScanState_values:
  "DSLScanStateNone = 0" "DSLScanStateScanning = 1" "DSLScanStateFinished = 2"
  "DSLScanStateCanceled = 3"
  by (simp_all add: DSLScanState_consts_def
      DSLScanStateNone_def DSLScanStateScanning_def DSLScanStateFinished_def
      DSLScanStateCanceled_def)

section \<open>The declared ranges\<close>

lemma word64_le_cases:
  fixes w :: "64 word"
  shows "w \<le> 2 \<longleftrightarrow> w \<in> {0, 1, 2}"
    and "w \<le> 3 \<longleftrightarrow> w \<in> {0, 1, 2, 3}"
    and "w \<le> 4 \<longleftrightarrow> w \<in> {0, 1, 2, 3, 4}"
    and "w \<le> 7 \<longleftrightarrow> w \<in> {0, 1, 2, 3, 4, 5, 6, 7}"
  by (simp_all add: word_le_nat_alt word_unat_eq_iff) arith+

lemma PoolStatus_defined_range:
  "s \<in> set PoolStatus_defined \<longleftrightarrow> PoolStatusCorruptCache \<le> s \<and> s \<le> PoolStatusOk"
  by (simp add: PoolStatus_defined_def PoolStatus_values) presburger

lemma PoolStatus_negative: "s < 0 \<Longrightarrow> s \<notin> set PoolStatus_defined"
  by (simp add: PoolStatus_defined_range PoolStatus_values)

lemma PoolState_defined_range:
  "s \<in> set PoolState_defined \<longleftrightarrow> s \<le> PoolStatePotentiallyActive"
  by (simp add: PoolState_defined_def PoolState_values word64_le_cases)

lemma VDevState_defined_range:
  "s \<in> set VDevState_defined \<longleftrightarrow> s \<le> VDevStateHealthy"
  by (simp add: VDevState_defined_def VDevState_values word64_le_cases)

lemma PoolScanFunc_defined_range:
  "f \<in> set PoolScanFunc_defined \<longleftrightarrow> f \<le> PoolScanFuncResilver"
  by (simp add: PoolScanFunc_defined_def PoolScanFunc_values word64_le_cases)

lemma DSLScanState_defined_range:
  "s \<in> set DSLScanState_defined \<longleftrightarrow> s \<le> DSLScanStateCanceled"
  by (simp add: DSLScanState_defined_def DSLScanState_values word64_le_cases)

section \<open>Renderers\<close>

lemma PoolStatus_String_defined:
  "map PoolStatus_String PoolStatus_defined =
      [''corrupt cache'', ''missing device; replicas available'',
       ''missing device; no replicas available'', ''bad device label; replicas available'',
       ''bad device label; no replicas available'', ''bad device GUID checksum'',
       ''corrupt pool metadata'', ''corrupt user data'', ''device(s) failing'',
       ''on-disk version too new; unsupported'',
       ''host ID mismatch; last accessed by another system'',
       (''failed I/O; failmode is '' @ [CHR 0x27] @ ''wait'' @ [CHR 0x27]),
       (''failed I/O; failmodde is '' @ [CHR 0x27] @ ''continue'' @ [CHR 0x27]),
       ''cannot read log chain(s)'', ''informational errata available'',
       ''pool is using unsupported features that are required for read access'',
       ''pool is using unsupported features that are required for write access'',
       ''device faulted; replicas available'', ''device faulted; no replicas available'',
       ''on-disk version is old and can be upgraded'', ''supported features are disabled'',
       ''resilvering (scrubbing) in progress'', ''device(s) offline'', ''device(s) removed'',
       ''healthy'']"
  by (simp add: PoolStatus_String_def PoolStatus_defined_def PoolStatus_values)

lemma PoolStatus_String_default:
  "s \<notin> set PoolStatus_defined \<Longrightarrow> PoolStatus_String s = ''UNKNOWN''"
  by (simp add: PoolStatus_String_def PoolStatus_defined_def)

lemma PoolStatus_String_nonempty: "PoolStatus_String s \<noteq> []"
  by (simp add: PoolStatus_String_def)

lemma PoolState_String_defined:
  "map PoolState_String PoolState_defined =
      [''active'', ''exported'', ''destroyed'', ''spare'', ''L2 cache'', ''uninitialized'',
       ''unavailable'', ''potentially active'']"
  by (simp add: PoolState_String_def PoolState_defined_def PoolState_values)

lemma PoolState_String_default:
  "s \<notin> set PoolState_defined \<Longrightarrow> PoolState_String s = ''UNKNOWN''"
  by (simp add: PoolState_String_def PoolState_defined_def)

lemma PoolState_String_nonempty: "PoolState_String s \<noteq> []"
  by (simp add: PoolState_String_def)

lemma VDevState_String_defined:
  "map VDevState_String VDevState_defined =
      [''uninitialized (or perhaps unknown?)'', ''closed'', ''offline'', ''removed'',
       ''cannot open'', ''faulted'', ''degraded'', ''online'']"
  by (simp add: VDevState_String_def VDevState_defined_def VDevState_values)

lemma VDevState_String_default:
  "s \<notin> set VDevState_defined \<Longrightarrow> VDevState_String s = ''UNKNOWN''"
  by (simp add: VDevState_String_def VDevState_defined_def)

lemma VDevState_String_nonempty: "VDevState_String s \<noteq> []"
  by (simp add: VDevState_String_def)

lemma PoolScanFunc_String_defined:
  "map PoolScanFunc_String PoolScanFunc_defined =
      [''none'', ''scrub'', ''resilver'']"
  by (simp add: PoolScanFunc_String_def PoolScanFunc_defined_def PoolScanFunc_values)

lemma PoolScanFunc_String_default:
  "f \<notin> set PoolScanFunc_defined \<Longrightarrow> PoolScanFunc_String f = ''<UNKNOWN-VALUE>''"
  by (simp add: PoolScanFunc_String_def PoolScanFunc_defined_def)

lemma PoolScanFunc_String_nonempty: "PoolScanFunc_String f \<noteq> []"
  by (simp add: PoolScanFunc_String_def)

lemma DSLScanState_String_defined:
  "map DSLScanState_String DSLScanState_defined =
      [''none'', ''scanning'', ''finished'', ''canceled'']"
  by (simp add: DSLScanState_String_def DSLScanState_defined_def DSLScanState_values)

lemma DSLScanState_String_default:
  "s \<notin> set DSLScanState_defined \<Longrightarrow> DSLScanState_String s = ''<UNKNOWN-VALUE>''"
  by (simp add: DSLScanState_String_def DSLScanState_defined_def)

lemma DSLScanState_String_nonempty: "DSLScanState_String s \<noteq> []"
  by (simp add: DSLScanState_String_def)

section \<open>Rendering is total\<close>

text \<open>
  C1. Each of the five renderers (\<open>PoolStatus\<close>, \<open>PoolState\<close>, \<open>VDevState\<close>,
  \<open>PoolScanFunc\<close>, \<open>DSLScanState\<close>) is a total function: it maps the declared values,
  which are the values from the first to the last constant, to their fixed descriptions,
  and every other input, a negative \<open>PoolStatus\<close> among them, to "UNKNOWN" (the first
  three) or "<UNKNOWN-VALUE>" (the last two). A renderer has no failing branch, and its
  result is never the empty string.
\<close>

theorem String_total:
  fixes s :: PoolStatus and p :: PoolState and v :: VDevState
    and f :: PoolScanFunc and d :: DSLScanState
  shows
   "map PoolStatus_String PoolStatus_defined =
      [''corrupt cache'', ''missing device; replicas available'',
       ''missing device; no replicas available'', ''bad device label; replicas available'',
       ''bad device label; no replicas available'', ''bad device GUID checksum'',
       ''corrupt pool metadata'', ''corrupt user data'', ''device(s) failing'',
       ''on-disk version too new; unsupported'',
       ''host ID mismatch; last accessed by another system'',
       (''failed I/O; failmode is '' @ [CHR 0x27] @ ''wait'' @ [CHR 0x27]),
       (''failed I/O; failmodde is '' @ [CHR 0x27] @ ''continue'' @ [CHR 0x27]),
       ''cannot read log chain(s)'', ''informational errata available'',
       ''pool is using unsupported features that are required for read access'',
       ''pool is using unsupported features that are required for write access'',
       ''device faulted; replicas available'', ''device faulted; no replicas available'',
       ''on-disk version is old and can be upgraded'', ''supported features are disabled'',
       ''resilvering (scrubbing) in progress'', ''device(s) offline'', ''device(s) removed'',
       ''healthy'']
    \<and> (s \<in> set PoolStatus_defined) = (PoolStatusCorruptCache \<le> s \<and> s \<le> PoolStatusOk)
    \<and> (s \<notin> set PoolStatus_defined \<longrightarrow> PoolStatus_String s = ''UNKNOWN'')
    \<and> (s < 0 \<longrightarrow> PoolStatus_String s = ''UNKNOWN'')
    \<and> PoolStatus_String s \<noteq> []
    \<and> map PoolState_String PoolState_defined =
      [''active'', ''exported'', ''destroyed'', ''spare'', ''L2 cache'', ''uninitialized'',
       ''unavailable'', ''potentially active'']
    \<and> (p \<in> set PoolState_defined) = (p \<le> PoolStatePotentiallyActive)
    \<and> (p \<notin> set PoolState_defined \<longrightarrow> PoolState_String p = ''UNKNOWN'')
    \<and> PoolState_String p \<noteq> []
    \<and> map VDevState_String VDevState_defined =
      [''uninitialized (or perhaps unknown?)'', ''closed'', ''offline'', ''removed'',
       ''cannot open'', ''faulted'', ''degraded'', ''online'']
    \<and> (v \<in> set VDevState_defined) = (v \<le> VDevStateHealthy)
    \<and> (v \<notin> set VDevState_defined \<longrightarrow> VDevState_String v = ''UNKNOWN'')
    \<and> VDevState_String v \<noteq> []
    \<and> map PoolScanFunc_String PoolScanFunc_defined =
      [''none'', ''scrub'', ''resilver'']
    \<and> (f \<in> set PoolScanFunc_defined) = (f \<le> PoolScanFuncResilver)
    \<and> (f \<notin> set PoolScanFunc_defined \<longrightarrow> PoolScanFunc_String f = ''<UNKNOWN-VALUE>'')
    \<and> PoolScanFunc_String f \<noteq> []
    \<and> map DSLScanState_String DSLScanState_defined =
      [''none'', ''scanning'', ''finished'', ''canceled'']
    \<and> (d \<in> set DSLScanState_defined) = (d \<le> DSLScanStateCanceled)
    \<and> (d \<notin> set DSLScanState_defined \<longrightarrow> DSLScanState_String d = ''<UNKNOWN-VALUE>'')
    \<and> DSLScanState_String d \<noteq> []"
proof -
  have negative: "s < 0 \<longrightarrow> PoolStatus_String s = ''UNKNOWN''"
    using PoolStatus_negative PoolStatus_String_default by blast
  have outside:
    "s \<notin> set PoolStatus_defined \<longrightarrow> PoolStatus_String s = ''UNKNOWN''"
    "p \<notin> set PoolState_defined \<longrightarrow> PoolState_String p = ''UNKNOWN''"
    "v \<notin> set VDevState_defined \<longrightarrow> VDevState_String v = ''UNKNOWN''"
    "f \<notin> set PoolScanFunc_defined \<longrightarrow> PoolScanFunc_String f = ''<UNKNOWN-VALUE>''"
    "d \<notin> set DSLScanState_defined \<longrightarrow> DSLScanState_String d = ''<UNKNOWN-VALUE>''"
    using PoolStatus_String_default PoolState_String_default VDevState_String_default
      PoolScanFunc_String_default DSLScanState_String_default
    by blast+
  show ?thesis
    by (intro conjI)
      (rule PoolStatus_String_defined PoolStatus_defined_range negative outside
        PoolStatus_String_nonempty
        PoolState_String_defined PoolState_defined_range PoolState_String_nonempty
        VDevState_String_defined VDevState_defined_range VDevState_String_nonempty
        PoolScanFunc_String_defined PoolScanFunc_defined_range PoolScanFunc_String_nonempty
        DSLScanState_String_defined DSLScanState_defined_range
        DSLScanState_String_nonempty)+
qed

theorem String_total_witness:
  "PoolStatus_String (- 1) = ''UNKNOWN'' \<and> PoolStatus_String 25 = ''UNKNOWN''
   \<and> PoolState_String 8 = ''UNKNOWN'' \<and> VDevState_String 8 = ''UNKNOWN''
   \<and> PoolScanFunc_String 3 = ''<UNKNOWN-VALUE>''
   \<and> DSLScanState_String 4 = ''<UNKNOWN-VALUE>''"
proof -
  note outside = String_total [of 25 8 8 3 4]
  have "(- 1 :: PoolStatus) < 0 \<longrightarrow> PoolStatus_String (- 1) = ''UNKNOWN''"
    using String_total [of "- 1" 8 8 3 4] by - (elim conjE, assumption)
  then have n: "PoolStatus_String (- 1) = ''UNKNOWN''"
    by simp
  have "(25 :: PoolStatus) \<notin> set PoolStatus_defined \<longrightarrow> PoolStatus_String 25 = ''UNKNOWN''"
    using outside by - (elim conjE, assumption)
  then have s: "PoolStatus_String 25 = ''UNKNOWN''"
    by (simp add: PoolStatus_defined_def PoolStatus_values)
  have "(8 :: PoolState) \<notin> set PoolState_defined \<longrightarrow> PoolState_String 8 = ''UNKNOWN''"
    using outside by - (elim conjE, assumption)
  then have p: "PoolState_String 8 = ''UNKNOWN''"
    by (simp add: PoolState_defined_def PoolState_values)
  have "(8 :: VDevState) \<notin> set VDevState_defined \<longrightarrow> VDevState_String 8 = ''UNKNOWN''"
    using outside by - (elim conjE, assumption)
  then have v: "VDevState_String 8 = ''UNKNOWN''"
    by (simp add: VDevState_defined_def VDevState_values)
  have "(3 :: PoolScanFunc) \<notin> set PoolScanFunc_defined
      \<longrightarrow> PoolScanFunc_String 3 = ''<UNKNOWN-VALUE>''"
    using outside by - (elim conjE, assumption)
  then have f: "PoolScanFunc_String 3 = ''<UNKNOWN-VALUE>''"
    by (simp add: PoolScanFunc_defined_def PoolScanFunc_values)
  have "(4 :: DSLScanState) \<notin> set DSLScanState_defined
      \<longrightarrow> DSLScanState_String 4 = ''<UNKNOWN-VALUE>''"
    using outside by - (elim conjE, assumption)
  then have d: "DSLScanState_String 4 = ''<UNKNOWN-VALUE>''"
    by (simp add: DSLScanState_defined_def DSLScanState_values)
  from n s p v f d show ?thesis
    by (intro conjI)
qed

section \<open>Pool status\<close>

text \<open>
  C7. The status that the source declares for "sum of device guids didn't match" is
  \<open>PoolStatusBadGUIDSum\<close>, the sixth constant of its block, so its value is 5, and
  \<open>PoolStatusBadGUIDSum.String()\<close> returns exactly "bad device GUID checksum".
\<close>

theorem PoolStatusBadGUIDSum_renders:
  "PoolStatusBadGUIDSum = 5
   \<and> PoolStatus_consts ! 5 = ''PoolStatusBadGUIDSum''
   \<and> PoolStatus_String PoolStatusBadGUIDSum = ''bad device GUID checksum''
   \<and> PoolStatus_String 5 = ''bad device GUID checksum''"
  by (simp add: PoolStatus_String_def PoolStatus_values PoolStatus_consts_def)

section \<open>Device states\<close>

text \<open>
  C2. The comparison \<open><\<close> of \<open>VDevState\<close> is a strict total order: it is transitive,
  irreflexive and any two states are comparable. Among the eight declared states
  \<open>VDevStateHealthy\<close>, of value 7, is the only greatest one and \<open>VDevStateUnknown\<close>, of
  value 0, the only least one: every other declared state is strictly between them.
\<close>

theorem VDevState_order:
  fixes a b c :: VDevState
  shows
   "(a < b \<and> b < c \<longrightarrow> a < c)
    \<and> \<not> a < a
    \<and> (a < b \<or> a = b \<or> b < a)
    \<and> VDevStateHealthy = 7 \<and> VDevStateUnknown = 0
    \<and> VDevStateHealthy \<in> set VDevState_defined
    \<and> VDevStateUnknown \<in> set VDevState_defined
    \<and> (\<forall>s \<in> set VDevState_defined. s \<noteq> VDevStateHealthy \<longrightarrow> s < VDevStateHealthy)
    \<and> (\<forall>s \<in> set VDevState_defined. s \<noteq> VDevStateUnknown \<longrightarrow> VDevStateUnknown < s)"
proof -
  have order: "(a < b \<and> b < c \<longrightarrow> a < c) \<and> \<not> a < a \<and> (a < b \<or> a = b \<or> b < a)"
    by auto
  have ends: "VDevStateHealthy = 7 \<and> VDevStateUnknown = 0"
    by (simp add: VDevState_values)
  have members: "VDevStateHealthy \<in> set VDevState_defined
    \<and> VDevStateUnknown \<in> set VDevState_defined"
    by (simp add: VDevState_defined_def)
  have top: "\<forall>s \<in> set VDevState_defined. s \<noteq> VDevStateHealthy \<longrightarrow> s < VDevStateHealthy"
    by (simp add: VDevState_defined_def VDevState_values)
  have bottom: "\<forall>s \<in> set VDevState_defined. s \<noteq> VDevStateUnknown \<longrightarrow> VDevStateUnknown < s"
    by (simp add: VDevState_defined_def VDevState_values)
  from order ends members top bottom show ?thesis
    by blast
qed

theorem VDevState_order_witness:
  "VDevStateClosed < VDevStateFaulted
   \<and> VDevStateFaulted < VDevStateHealthy \<and> VDevStateUnknown < VDevStateFaulted"
proof -
  have lt: "VDevStateClosed < VDevStateCantOpen \<and> VDevStateCantOpen < VDevStateFaulted"
    by (simp add: VDevState_values)
  have mem: "VDevStateFaulted \<in> set VDevState_defined"
    by (simp add: VDevState_defined_def)
  have ne: "VDevStateFaulted \<noteq> VDevStateHealthy" "VDevStateFaulted \<noteq> VDevStateUnknown"
    by (simp_all add: VDevState_values)
  from lt mem ne
    VDevState_order [of VDevStateClosed VDevStateCantOpen VDevStateFaulted]
  show ?thesis
    by blast
qed

text \<open>
  C8. \<open>VDevStateCantOpen\<close> renders as "cannot open", the reason code
  \<open>VDevAuxNoReplicas\<close> renders as "insufficient number of replicas", and \<open>isUsable\<close> is
  false at \<open>VDevStateCantOpen\<close>.
\<close>

theorem CantOpen_NoReplicas_scenario:
  "VDevState_String VDevStateCantOpen = ''cannot open''
   \<and> VDevAux_describe VDevAuxNoReplicas = ''insufficient number of replicas''
   \<and> \<not> isUsable VDevStateCantOpen"
  by (simp add: VDevState_String_def VDevState_values VDevAux_describe_def VDevAux_values
      isUsable_def)

text \<open>
  C9. \<open>isUsable state\<close> is \<open>state > VDevStateCantOpen\<close>, for every 64-bit value. It is
  false at exactly the states \<open>Unknown\<close>, \<open>Closed\<close>, \<open>Offline\<close>, \<open>Removed\<close> and
  \<open>CantOpen\<close>. It is true at \<open>Faulted\<close>, \<open>Degraded\<close> and \<open>Healthy\<close> and at every value above
  \<open>Healthy\<close>, and at nothing else; among the eight declared states it is true at exactly
  \<open>Faulted\<close>, \<open>Degraded\<close> and \<open>Healthy\<close>.
\<close>

theorem isUsable_boundary:
  "isUsable s = (VDevStateCantOpen < s)
   \<and> (\<not> isUsable s) =
       (s \<in> {VDevStateUnknown, VDevStateClosed, VDevStateOffline, VDevStateRemoved,
              VDevStateCantOpen})
   \<and> isUsable s =
       (s \<in> {VDevStateFaulted, VDevStateDegraded, VDevStateHealthy} \<or> VDevStateHealthy < s)
   \<and> (s \<in> set VDevState_defined \<longrightarrow>
       isUsable s = (s \<in> {VDevStateFaulted, VDevStateDegraded, VDevStateHealthy}))
   \<and> map isUsable VDevState_defined =
       [False, False, False, False, False, True, True, True]"
proof -
  have unusable: "(\<not> isUsable s) =
       (s \<in> {VDevStateUnknown, VDevStateClosed, VDevStateOffline, VDevStateRemoved,
              VDevStateCantOpen})"
    by (simp add: isUsable_def VDevState_values not_less word64_le_cases)
  have above: "isUsable s =
       (s \<in> {VDevStateFaulted, VDevStateDegraded, VDevStateHealthy} \<or> VDevStateHealthy < s)"
    by (simp add: isUsable_def VDevState_values word_less_nat_alt word_unat_eq_iff) arith
  have usable: "s \<in> set VDevState_defined \<longrightarrow>
       isUsable s = (s \<in> {VDevStateFaulted, VDevStateDegraded, VDevStateHealthy})"
    by (auto simp add: isUsable_def VDevState_defined_def VDevState_values)
  have each: "map isUsable VDevState_defined =
       [False, False, False, False, False, True, True, True]"
    by (simp add: isUsable_def VDevState_defined_def VDevState_values)
  have eq: "isUsable s = (VDevStateCantOpen < s)"
    by (simp add: isUsable_def)
  show ?thesis
    by (intro conjI) (rule eq unusable above usable each)+
qed

theorem isUsable_boundary_witness:
  "isUsable VDevStateDegraded \<and> \<not> isUsable VDevStateRemoved"
proof -
  have "VDevStateDegraded \<in> set VDevState_defined"
    by (simp add: VDevState_defined_def)
  with isUsable_boundary [of VDevStateDegraded] have "isUsable VDevStateDegraded"
    by blast
  moreover from isUsable_boundary [of VDevStateRemoved] have "\<not> isUsable VDevStateRemoved"
    by blast
  ultimately show ?thesis ..
qed

text \<open>
  C9, as stated for every value of \<open>VDevState\<close>, fails: 8 is none of the declared states
  and compares above \<open>VDevStateCantOpen\<close>, so \<open>isUsable\<close> is true outside
  \<open>Faulted\<close>, \<open>Degraded\<close> and \<open>Healthy\<close>.
\<close>

theorem isUsable_undeclared_counterexample:
  "isUsable 8 \<and> (8 :: VDevState) \<notin> {VDevStateFaulted, VDevStateDegraded, VDevStateHealthy}
   \<and> (8 :: VDevState) \<notin> set VDevState_defined"
  by (simp add: isUsable_def VDevState_defined_def VDevState_values)

text \<open>
  C10. \<open>VDevState.String\<close> renders \<open>VDevStateHealthy\<close> as "online", not "healthy", and
  \<open>VDevStateUnknown\<close> as "uninitialized (or perhaps unknown?)", not "unknown": the rendered
  strings of these two states differ from the names the health scale gives them.
\<close>

theorem VDevState_String_names_differ:
  "VDevState_String VDevStateHealthy = ''online''
   \<and> VDevState_String VDevStateHealthy \<noteq> ''healthy''
   \<and> VDevState_String VDevStateUnknown = ''uninitialized (or perhaps unknown?)''
   \<and> VDevState_String VDevStateUnknown \<noteq> ''unknown''"
  by (simp add: VDevState_String_def VDevState_values)

section \<open>Error constants\<close>

lemma iota_nth: "distinct xs \<Longrightarrow> i < length xs \<Longrightarrow> iota xs (xs ! i) = i"
proof (induction xs arbitrary: i)
  case Nil
  then show ?case by simp
next
  case (Cons x xs)
  show ?case
  proof (cases i)
    case 0
    then show ?thesis by simp
  next
    case (Suc j)
    with Cons.prems have "j < length xs" and "xs ! j \<noteq> x" by auto
    with Cons.IH Cons.prems Suc show ?thesis by auto
  qed
qed

lemma ErrorCode_consts_distinct: "distinct ErrorCode_consts"
  by (simp add: ErrorCode_consts_def)

lemma ErrorCode_consts_length: "length ErrorCode_consts = 72"
  by (simp add: ErrorCode_consts_def)

lemma ErrorCode_consts_0: "ErrorCode_consts ! 0 = ''ESuccess''"
  by (simp add: ErrorCode_consts_def)

lemma ErrorCode_values_nth:
  assumes "i < 72"
  shows "ErrorCode_values ! i = (if i = 0 then 0 else 2000 * 2 ^ i)"
proof -
  from assms have len: "i < length ErrorCode_consts"
    by (simp add: ErrorCode_consts_length)
  have "0 < length ErrorCode_consts"
    by (simp add: ErrorCode_consts_length)
  from nth_eq_iff_index_eq [OF ErrorCode_consts_distinct len this]
  have name: "ErrorCode_consts ! i = ''ESuccess'' \<longleftrightarrow> i = 0"
    by (simp add: ErrorCode_consts_0)
  have "ErrorCode_values ! i = ErrorCode_value (ErrorCode_consts ! i)"
    using len by (simp add: ErrorCode_values_def)
  also have "\<dots> = (if i = 0 then 0 else push_bit i 2000)"
    using name iota_nth [OF ErrorCode_consts_distinct len]
    by (simp add: ErrorCode_value_def)
  finally show ?thesis by (simp add: push_bit_eq_mult)
qed

lemma ErrorCode_values_length: "length ErrorCode_values = 72"
  by (simp add: ErrorCode_values_def ErrorCode_consts_length)

lemma ErrorCode_values_distinct: "distinct ErrorCode_values"
proof -
  have "ErrorCode_values ! i \<noteq> ErrorCode_values ! j"
    if "i < 72" "j < 72" "i < j" for i j
    using that by (simp add: ErrorCode_values_nth)
  then have "ErrorCode_values ! i \<noteq> ErrorCode_values ! j"
    if "i < 72" "j < 72" "i \<noteq> j" for i j
    using that by (cases "i < j") (force simp add: not_less le_less)+
  then show ?thesis
    by (simp add: distinct_conv_nth ErrorCode_values_length)
qed

lemma ErrorCode_named:
  "ESuccess = 0" "ENomem = 4000" "EBadprop = 8000" "EPropreadonly = 16000"
  by (simp_all add: ESuccess_def ENomem_def EBadprop_def EPropreadonly_def
      ErrorCode_value_def ErrorCode_consts_def)

lemma EUnknown_value: "EUnknown = 2000 * 2 ^ 71"
  by (simp add: EUnknown_def ErrorCode_value_def ErrorCode_consts_def)

lemma ErrorCode_large:
  "ENoreplicas = 2000 * 2 ^ 20" "EResilvering = 2000 * 2 ^ 21"
  "EUnsharesmbfailed = 2000 * 2 ^ 52" "ESharesmbfailed = 2000 * 2 ^ 53"
  "EBadcache = 2000 * 2 ^ 54"
  by (simp_all add: ENoreplicas_def EResilvering_def EUnsharesmbfailed_def
      ESharesmbfailed_def EBadcache_def ErrorCode_value_def ErrorCode_consts_def)

lemma ErrorCode_values_no_2000: "2000 \<notin> set ErrorCode_values"
proof
  assume "2000 \<in> set ErrorCode_values"
  then obtain i where i: "i < 72" and v: "ErrorCode_values ! i = 2000"
    by (auto simp add: in_set_conv_nth ErrorCode_values_length)
  show False
  proof (cases "i = 0")
    case True
    with i v show False by (simp add: ErrorCode_values_nth)
  next
    case False
    with i v have one: "(2::int) ^ i = 1" by (simp add: ErrorCode_values_nth)
    from False have "(2::int) ^ 1 \<le> 2 ^ i" by (intro power_increasing) simp_all
    with one show False by simp
  qed
qed

text \<open>
  C3. \<open>ESuccess\<close> is 0 and the 72 constants have pairwise different values, but the
  values from \<open>ENomem\<close> on are not a fixed amount apart: \<open>2000 << iota\<close> gives 4000, 8000,
  16000, so the first difference is 4000 and the second 8000. The literal 2000 of the
  declaration is the value of no constant, and the values leave the range of a 32-bit C
  \<open>int\<close> at \<open>EResilvering\<close>, of a signed 64-bit integer at \<open>ESharesmbfailed\<close> and of an
  unsigned one at \<open>EBadcache\<close>.
\<close>

theorem ErrorCode_not_evenly_spaced:
  "ESuccess = 0
   \<and> distinct ErrorCode_values
   \<and> ErrorCode_values ! 1 = ENomem \<and> ErrorCode_values ! 2 = EBadprop
   \<and> ErrorCode_values ! 3 = EPropreadonly
   \<and> ENomem = 4000 \<and> EBadprop = 8000 \<and> EPropreadonly = 16000
   \<and> EBadprop - ENomem = 4000 \<and> EPropreadonly - EBadprop = 8000
   \<and> EBadprop - ENomem \<noteq> EPropreadonly - EBadprop
   \<and> 2000 \<notin> set ErrorCode_values
   \<and> ENoreplicas \<le> 2 ^ 31 - 1 \<and> 2 ^ 31 - 1 < EResilvering
   \<and> EUnsharesmbfailed \<le> 2 ^ 63 - 1 \<and> 2 ^ 63 - 1 < ESharesmbfailed
   \<and> ESharesmbfailed \<le> 2 ^ 64 - 1 \<and> 2 ^ 64 - 1 < EBadcache"
  by (simp add: ErrorCode_named ErrorCode_large ErrorCode_values_no_2000
      ErrorCode_values_nth ErrorCode_values_distinct)

section \<open>The last error\<close>

text \<open>
  C5. \<open>LastError\<close> returns no error, \<open>nil\<close> and not an error that holds the empty string,
  when the error number of the engine is 0; otherwise it returns an error whose
  description is the engine's description, unchanged.
\<close>

theorem LastError_result:
  "(libzfs_errno h = 0 \<longrightarrow>
      LastError h = None \<and> LastError h \<noteq> Some (errors_New []))
   \<and> (libzfs_errno h \<noteq> 0 \<longrightarrow>
      (\<exists>e. LastError h = Some e \<and> Error e = libzfs_error_description h))"
  by (simp add: LastError_def errors_New_def)

theorem LastError_result_witness:
  "LastError \<lparr>libzfs_errno = 0, libzfs_error_description = ''no error''\<rparr> = None
   \<and> (\<exists>e. LastError \<lparr>libzfs_errno = 2009, libzfs_error_description = ''no such pool''\<rparr>
           = Some e
         \<and> Error e = ''no such pool'')"
proof -
  have zero: "libzfs_errno \<lparr>libzfs_errno = 0, libzfs_error_description = ''no error''\<rparr> = 0"
    by simp
  have set: "libzfs_errno \<lparr>libzfs_errno = 2009, libzfs_error_description = ''no such pool''\<rparr>
      \<noteq> 0"
    by simp
  from zero LastError_result [of "\<lparr>libzfs_errno = 0, libzfs_error_description = ''no error''\<rparr>"]
  have "LastError \<lparr>libzfs_errno = 0, libzfs_error_description = ''no error''\<rparr> = None"
    by blast
  moreover from set
    LastError_result [of "\<lparr>libzfs_errno = 2009, libzfs_error_description = ''no such pool''\<rparr>"]
  have "\<exists>e. LastError \<lparr>libzfs_errno = 2009, libzfs_error_description = ''no such pool''\<rparr>
           = Some e
         \<and> Error e = ''no such pool''"
    by simp
  ultimately show ?thesis ..
qed

text \<open>
  C6. From every state of the engine, the one with no error included, \<open>ClearLastError\<close>
  returns what \<open>LastError\<close> returns in that state, and in the state it leaves \<open>LastError\<close>
  returns no error.
\<close>

theorem ClearLastError_result:
  "fst (ClearLastError h) = LastError h
   \<and> LastError (snd (ClearLastError h)) = None"
  by (simp add: ClearLastError_def LastError_def clear_last_error_def)

end
